theory Spec2Isabelle
  imports Main
begin

section \<open>Go runtime and library functions used by crawler.go\<close>

text \<open>
  Go strings are byte strings; they are modelled as \<open>string\<close> (lists of 8-bit characters).
  The functions of package \<open>strings\<close> that crawler.go calls are written out from their Go
  definitions.
\<close>

definition HasPrefix :: "string \<Rightarrow> string \<Rightarrow> bool" where
  "HasPrefix s p = (length p \<le> length s \<and> take (length p) s = p)"

definition HasSuffix :: "string \<Rightarrow> string \<Rightarrow> bool" where
  "HasSuffix s x = (length x \<le> length s \<and> drop (length s - length x) s = x)"

definition TrimSuffix :: "string \<Rightarrow> string \<Rightarrow> string" where
  "TrimSuffix s x = (if HasSuffix s x then take (length s - length x) s else s)"

text \<open>\<open>strings.Index\<close>: the position of the first occurrence of \<open>sub\<close>, or \<open>-1\<close>.\<close>

fun Index :: "string \<Rightarrow> string \<Rightarrow> int" where
  "Index [] sub = (if sub = [] then 0 else - 1)"
| "Index (c # cs) sub =
     (if HasPrefix (c # cs) sub then 0
      else (let r = Index cs sub in if r < 0 then - 1 else r + 1))"

definition Contains :: "string \<Rightarrow> string \<Rightarrow> bool" where
  "Contains s sub = (0 \<le> Index s sub)"

text \<open>\<open>strings.Cut\<close>: the text before and after the first occurrence of \<open>sep\<close>.\<close>

definition Cut :: "string \<Rightarrow> string \<Rightarrow> string \<times> string \<times> bool" where
  "Cut s sep =
     (let i = Index s sep
      in if 0 \<le> i then (take (nat i) s, drop (nat i + length sep) s, True)
         else (s, [], False))"

text \<open>
  A Go function either returns or panics. A slice expression \<open>s[lo:hi]\<close> with indices
  computed at run time panics unless \<open>0 \<le> lo \<le> hi \<le> len(s)\<close>.
\<close>

datatype 'a outcome = Panic | Return 'a

definition slice :: "string \<Rightarrow> int \<Rightarrow> int \<Rightarrow> string outcome" where
  "slice s lo hi =
     (if 0 \<le> lo \<and> lo \<le> hi \<and> hi \<le> int (length s)
      then Return (take (nat (hi - lo)) (drop (nat lo) s))
      else Panic)"

section \<open>Data model\<close>

text \<open>
  \<open>url.URL\<close> of package net/url. The fields \<open>User\<close>, \<open>RawPath\<close> and \<open>RawFragment\<close> are
  left out: crawler.go never reads them, and they are nil or empty for every address
  without user information and percent escapes.
\<close>

record url =
  Scheme :: string
  Opaque :: string
  Host :: string
  Path :: string
  OmitHost :: bool
  ForceQuery :: bool
  RawQuery :: string
  Fragment :: string

text \<open>
  Go error values. The two format errors are the ones the sitemap readers report for a
  document of the wrong shape; \<open>NeitherSitemap\<close> is the error built by \<open>getURLs\<close> (it
  carries the root's string form); \<open>Failure\<close> stands for every other error, with its
  message.
\<close>

datatype error =
    InvalidSitemapIndexContent
  | InvalidXMLSitemapContent
  | NeitherSitemap string
  | Failure string

record URLCrawlRequest =
  ParentURL :: url
  TargetURL :: url

text \<open>
  The parsed HTML document, reduced to the two selections crawler.go makes on it: the
  \<open>href\<close> values of the elements matching \<open>base[href]\<close> and of those matching \<open>a[href]\<close>,
  both in document order.
\<close>

record Document =
  base_hrefs :: "string list"
  a_hrefs :: "string list"

text \<open>The fetcher's response, with the accessor methods crawler.go calls as fields.\<close>

record Response =
  Body :: string
  IsHTML :: bool
  Size :: int
  StatusCode :: int
  StartTime :: int
  EndTime :: int
  ContentType :: string

text \<open>Sitemap documents: only the \<open>Location\<close> of each entry is read.\<close>

record entry =
  Location :: string

record XMLSitemap =
  URLs :: "entry list"

record SitemapIndex =
  Sitemaps :: "entry list"

record WorkResult =
  parentURL :: url
  url :: url
  workerID :: int
  numberOfWorkers :: int
  responseSize :: int
  statusCode :: int
  startTime :: int
  endTime :: int
  contentType :: string

text \<open>
  What crawler.go calls and does not define. The functions of other packages
  (\<open>url.Parse\<close>, \<open>URL.String\<close>, \<open>goquery.NewDocumentFromReader\<close>) and the functions that
  read the network (\<open>readURL\<close>, \<open>getSitemapIndex\<close>, \<open>getXMLSitemap\<close>) are parameters of the
  model: every general theorem below holds for all of them.
\<close>

record env =
  Parse :: "string \<Rightarrow> error + url"
  String :: "url \<Rightarrow> string"
  NewDocumentFromReader :: "string \<Rightarrow> error + Document"
  readURL :: "url \<Rightarrow> error + Response"
  getSitemapIndex :: "url \<Rightarrow> error + SitemapIndex"
  getXMLSitemap :: "url \<Rightarrow> error + XMLSitemap"

section \<open>Link extraction: getDependentRequests\<close>

text \<open>Lines 134-139: the effective base of the document.\<close>

definition effectiveBase :: "url \<Rightarrow> Document \<Rightarrow> string" where
  "effectiveBase baseURL doc =
     (let base = (case base_hrefs doc of [] \<Rightarrow> [] | h # _ \<Rightarrow> h)
      in if base = [] then Scheme baseURL @ ''://'' @ Host baseURL
         else if HasPrefix base ''/'' then Scheme baseURL @ ''://'' @ Host baseURL @ base
         else base)"

text \<open>Lines 146-150: making the reference absolute.\<close>

definition resolveHref :: "url \<Rightarrow> string \<Rightarrow> string \<Rightarrow> string" where
  "resolveHref baseURL base href =
     (if HasPrefix href ''/'' then Scheme baseURL @ ''://'' @ Host baseURL @ href
      else if \<not> HasPrefix href ''http://'' \<and> \<not> HasPrefix href ''https://''
        then TrimSuffix base ''/'' @ ''/'' @ href
      else href)"

text \<open>Lines 152-156: cutting off the fragment, \<open>href[0 : hashPosition-1]\<close>.\<close>

definition cutHash :: "string \<Rightarrow> string outcome" where
  "cutHash href =
     (if Contains href ''#''
      then (let hashPosition = Index href ''#'' in slice href 0 (hashPosition - 1))
      else Return href)"

text \<open>
  Lines 142-169: the body of the closure passed to \<open>Each\<close>, for one \<open>a[href]\<close> element.
  The closure appends to the captured slice \<open>urls\<close>; a \<open>return\<close> leaves it unchanged.
\<close>

definition eachLink :: "env \<Rightarrow> url \<Rightarrow> string \<Rightarrow> url list \<Rightarrow> string \<Rightarrow> url list outcome" where
  "eachLink env baseURL base urls href0 =
     (case cutHash (resolveHref baseURL base href0) of
        Panic \<Rightarrow> Panic
      | Return href \<Rightarrow>
          (case Parse env href of
             Inl err \<Rightarrow> Return urls
           | Inr hrefURL \<Rightarrow>
               if Host hrefURL \<noteq> Host baseURL then Return urls
               else Return (urls @ [hrefURL])))"

fun Each :: "env \<Rightarrow> url \<Rightarrow> string \<Rightarrow> string list \<Rightarrow> url list \<Rightarrow> url list outcome" where
  "Each env baseURL base [] urls = Return urls"
| "Each env baseURL base (h # hs) urls =
     (case eachLink env baseURL base urls h of
        Panic \<Rightarrow> Panic
      | Return urls' \<Rightarrow> Each env baseURL base hs urls')"

definition getDependentRequests :: "env \<Rightarrow> url \<Rightarrow> string \<Rightarrow> (error + url list) outcome" where
  "getDependentRequests env baseURL input =
     (case NewDocumentFromReader env input of
        Inl err \<Rightarrow> Return (Inl err)
      | Inr doc \<Rightarrow>
          (case Each env baseURL (effectiveBase baseURL doc) (a_hrefs doc) [] of
             Panic \<Rightarrow> Panic
           | Return urls \<Rightarrow> Return (Inr urls)))"

section \<open>A model of net/url for plain addresses\<close>

text \<open>
  \<open>url.Parse\<close> and \<open>URL.String\<close> belong to Go's standard library, not to the repository.
  The general theorems take them as parameters. For concrete runs the definitions below
  follow the library's code on plain addresses of the shape
  \<open>scheme://host[:port]/path?query#fragment\<close>: user information (\<open>@\<close>), percent escapes
  (\<open>%\<close>) and bracketed IPv6 hosts are not modelled, so escaping and unescaping are the
  identity. The definitions are applied to plain addresses only.
\<close>

definition lowerLetters :: string where
  "lowerLetters = ''abcdefghijklmnopqrstuvwxyz''"

definition upperLetters :: string where
  "upperLetters = ''ABCDEFGHIJKLMNOPQRSTUVWXYZ''"

definition digitChars :: string where
  "digitChars = ''0123456789''"

definition ToLower :: "string \<Rightarrow> string" where
  "ToLower s =
     map (\<lambda>c. case map_of (zip upperLetters lowerLetters) c of None \<Rightarrow> c | Some l \<Rightarrow> l) s"

definition stringContainsCTLByte :: "string \<Rightarrow> bool" where
  "stringContainsCTLByte s = (\<exists>c \<in> set s. of_char c < (32::nat) \<or> of_char c = (127::nat))"

text \<open>\<open>getScheme\<close>: the loop over the bytes of \<open>rawURL\<close>; \<open>seen\<close> is \<open>rawURL[:i]\<close>.\<close>

fun getScheme_from :: "string \<Rightarrow> string \<Rightarrow> string \<Rightarrow> error + (string \<times> string)" where
  "getScheme_from rawURL seen [] = Inr ([], rawURL)"
| "getScheme_from rawURL seen (c # cs) =
     (if c \<in> set lowerLetters \<or> c \<in> set upperLetters
        then getScheme_from rawURL (seen @ [c]) cs
      else if c \<in> set digitChars \<or> c = CHR ''+'' \<or> c = CHR ''-'' \<or> c = CHR ''.''
        then (if seen = [] then Inr ([], rawURL) else getScheme_from rawURL (seen @ [c]) cs)
      else if c = CHR '':''
        then (if seen = [] then Inl (Failure ''missing protocol scheme'') else Inr (seen, cs))
      else Inr ([], rawURL))"

definition getScheme :: "string \<Rightarrow> error + (string \<times> string)" where
  "getScheme rawURL = getScheme_from rawURL [] rawURL"

definition validOptionalPort :: "string \<Rightarrow> bool" where
  "validOptionalPort port =
     (case port of
        [] \<Rightarrow> True
      | c # cs \<Rightarrow> c = CHR '':'' \<and> list_all (\<lambda>d. d \<in> set digitChars) cs)"

text \<open>The bytes \<open>shouldEscape\<close> lets stand in a host name.\<close>

definition hostChars :: string where
  "hostChars = lowerLetters @ upperLetters @ digitChars @ ''!$&()*+,;=:[]<>-_.~'' @ [CHR 0x27, CHR 0x22]"

fun LastIndexByte :: "string \<Rightarrow> char \<Rightarrow> int" where
  "LastIndexByte [] c = - 1"
| "LastIndexByte (x # xs) c =
     (let r = LastIndexByte xs c
      in if 0 \<le> r then r + 1 else if x = c then 0 else - 1)"

definition parseHost :: "string \<Rightarrow> error + string" where
  "parseHost host =
     (let i = LastIndexByte host (CHR '':'')
      in if 0 \<le> i \<and> \<not> validOptionalPort (drop (nat i) host)
           then Inl (Failure ''invalid port after host'')
         else if \<exists>c \<in> set host. of_char c < (128::nat) \<and> c \<notin> set hostChars
           then Inl (Failure ''invalid character in host name'')
         else Inr host)"

definition emptyURL :: url where
  "emptyURL = \<lparr>Scheme = [], Opaque = [], Host = [], Path = [], OmitHost = False,
     ForceQuery = False, RawQuery = [], Fragment = []\<rparr>"

text \<open>\<open>parse(rawURL, false)\<close>: the address without its fragment.\<close>

definition go_parse :: "string \<Rightarrow> error + url" where
  "go_parse rawURL =
     (if stringContainsCTLByte rawURL
        then Inl (Failure ''net/url: invalid control character in URL'')
      else if rawURL = ''*'' then Inr (emptyURL\<lparr>Path := ''*''\<rparr>)
      else case getScheme rawURL of
        Inl err \<Rightarrow> Inl err
      | Inr (scheme, rest0) \<Rightarrow>
          (let u0 = emptyURL\<lparr>Scheme := ToLower scheme\<rparr>;
               force = (HasSuffix rest0 ''?'' \<and> count_list rest0 (CHR ''?'') = 1);
               rest = (if force then take (length rest0 - 1) rest0 else fst (Cut rest0 ''?''));
               u = (if force then u0\<lparr>ForceQuery := True\<rparr>
                    else u0\<lparr>RawQuery := fst (snd (Cut rest0 ''?''))\<rparr>)
           in if \<not> HasPrefix rest ''/'' \<and> Scheme u \<noteq> [] then Inr (u\<lparr>Opaque := rest\<rparr>)
              else if \<not> HasPrefix rest ''/'' \<and> Contains (fst (Cut rest ''/'')) '':''
                then Inl (Failure ''first path segment in URL cannot contain colon'')
              else if (Scheme u \<noteq> [] \<or> \<not> HasPrefix rest ''///'') \<and> HasPrefix rest ''//''
                then (let a = drop 2 rest;
                          i = Index a ''/'';
                          authority = (if 0 \<le> i then take (nat i) a else a);
                          rest' = (if 0 \<le> i then drop (nat i) a else [])
                      in case parseHost authority of
                           Inl err \<Rightarrow> Inl err
                         | Inr h \<Rightarrow> Inr (u\<lparr>Host := h, Path := rest'\<rparr>))
              else if Scheme u \<noteq> [] \<and> HasPrefix rest ''/''
                then Inr (u\<lparr>Path := rest, OmitHost := True\<rparr>)
              else Inr (u\<lparr>Path := rest\<rparr>)))"

text \<open>\<open>url.Parse\<close>: cut off the fragment, parse the rest, set the fragment.\<close>

definition go_Parse :: "string \<Rightarrow> error + url" where
  "go_Parse rawURL =
     (case Cut rawURL ''#'' of
        (u, frag, _) \<Rightarrow>
          (case go_parse u of
             Inl err \<Rightarrow> Inl err
           | Inr parsed \<Rightarrow> Inr (parsed\<lparr>Fragment := frag\<rparr>)))"

text \<open>\<open>(*URL).String\<close>, the pieces written to the buffer in order.\<close>

definition go_String_authority :: "url \<Rightarrow> string" where
  "go_String_authority u =
     (if Scheme u \<noteq> [] \<or> Host u \<noteq> [] then
        (if OmitHost u \<and> Host u = [] then []
         else (if Host u \<noteq> [] \<or> Path u \<noteq> [] then ''//'' else []) @ Host u)
      else [])"

definition go_String_path :: "url \<Rightarrow> string \<Rightarrow> string" where
  "go_String_path u buf =
     (if Path u \<noteq> [] \<and> \<not> HasPrefix (Path u) ''/'' \<and> Host u \<noteq> [] then ''/''
      else if buf = [] \<and> Contains (fst (Cut (Path u) ''/'')) '':'' then ''./''
      else []) @ Path u"

definition go_String :: "url \<Rightarrow> string" where
  "go_String u =
     (let scheme = (if Scheme u \<noteq> [] then Scheme u @ '':'' else []);
          body = (if Opaque u \<noteq> [] then scheme @ Opaque u
                  else (let buf = scheme @ go_String_authority u in buf @ go_String_path u buf));
          query = (if ForceQuery u \<or> RawQuery u \<noteq> [] then body @ ''?'' @ RawQuery u else body)
      in if Fragment u \<noteq> [] then query @ ''#'' @ Fragment u else query)"

text \<open>
  The environment of the concrete runs: the net/url model, an HTML parser that finds no
  element, and a network on which every read fails. Each example overrides what it needs.
\<close>

definition go_env :: env where
  "go_env = \<lparr>Parse = go_Parse, String = go_String,
     NewDocumentFromReader = (\<lambda>_. Inr \<lparr>base_hrefs = [], a_hrefs = []\<rparr>),
     readURL = (\<lambda>_. Inl (Failure ''no such host'')),
     getSitemapIndex = (\<lambda>_. Inl (Failure ''no such host'')),
     getXMLSitemap = (\<lambda>_. Inl (Failure ''no such host''))\<rparr>"

section \<open>Sitemap resolution\<close>

text \<open>Lines 205-213 of \<open>getURLsFromSitemap\<close>: the loop over the entries of the sitemap.\<close>

fun parseEntries :: "env \<Rightarrow> entry list \<Rightarrow> url list \<Rightarrow> error + url list" where
  "parseEntries env [] urls = Inr urls"
| "parseEntries env (urlEntry # es) urls =
     (case Parse env (Location urlEntry) of
        Inl parseError \<Rightarrow> Inl parseError
      | Inr parsedURL \<Rightarrow> parseEntries env es (urls @ [parsedURL]))"

definition getURLsFromSitemap :: "env \<Rightarrow> url \<Rightarrow> error + url list" where
  "getURLsFromSitemap env xmlSitemapURL =
     (case getXMLSitemap env xmlSitemapURL of
        Inl xmlSitemapError \<Rightarrow> Inl xmlSitemapError
      | Inr sitemap \<Rightarrow> parseEntries env (URLs sitemap) [])"

text \<open>Lines 227-240 of \<open>getURLsFromSitemapIndex\<close>: the loop over the child sitemaps.\<close>

fun resolveChildren :: "env \<Rightarrow> entry list \<Rightarrow> url list \<Rightarrow> error + url list" where
  "resolveChildren env [] urls = Inr urls"
| "resolveChildren env (sitemap # ss) urls =
     (case Parse env (Location sitemap) of
        Inl err \<Rightarrow> Inl err
      | Inr locationURL \<Rightarrow>
          (case getURLsFromSitemap env locationURL of
             Inl err \<Rightarrow> Inl err
           | Inr sitemapUrls \<Rightarrow> resolveChildren env ss (urls @ sitemapUrls)))"

definition getURLsFromSitemapIndex :: "env \<Rightarrow> url \<Rightarrow> error + url list" where
  "getURLsFromSitemapIndex env xmlSitemapURL =
     (case getSitemapIndex env xmlSitemapURL of
        Inl sitemapIndexError \<Rightarrow> Inl sitemapIndexError
      | Inr sitemapIndex \<Rightarrow> resolveChildren env (Sitemaps sitemapIndex) [])"

text \<open>
  Modelled from the spec: \<open>isInvalidSitemapIndexContent\<close> is called by \<open>getURLs\<close> and is
  not defined in crawler.go. Spec 4.1: "a probe failing for unrelated reasons (e.g.,
  entry-level parse error) still causes resolve to fail"; spec 7 (3): the top-level
  failure is that "both sitemap probes fail". So it holds of every error of the index
  probe, and not of nil. The argument is the probe's error, \<open>None\<close> for nil.
\<close>

definition isInvalidSitemapIndexContent :: "error option \<Rightarrow> bool" where
  "isInvalidSitemapIndexContent err = (err \<noteq> None)"

text \<open>
  Modelled from the spec: \<open>isInvalidXMLSitemapContent\<close> is called by \<open>getURLs\<close> and is not
  defined in crawler.go. By the same sentences of spec 4.1 and 7 (3) it holds of every
  error of the flat-sitemap probe, and not of nil. The argument is the probe's error,
  \<open>None\<close> for nil.
\<close>

definition isInvalidXMLSitemapContent :: "error option \<Rightarrow> bool" where
  "isInvalidXMLSitemapContent err = (err \<noteq> None)"

text \<open>The error component of a Go result pair, \<open>None\<close> for nil.\<close>

definition errorOf :: "error + 'a \<Rightarrow> error option" where
  "errorOf r = (case r of Inl err \<Rightarrow> Some err | Inr _ \<Rightarrow> None)"

definition getURLs :: "env \<Rightarrow> url \<Rightarrow> error + url list" where
  "getURLs env xmlSitemapURL =
     (let fromIndex = getURLsFromSitemapIndex env xmlSitemapURL;
          indexError = errorOf fromIndex;
          urls = (case fromIndex of Inl _ \<Rightarrow> [] | Inr urlsFromIndex \<Rightarrow> urlsFromIndex);
          fromSitemap = getURLsFromSitemap env xmlSitemapURL;
          sitemapError = errorOf fromSitemap;
          urls' = (case fromSitemap of
                     Inl _ \<Rightarrow> urls
                   | Inr urlsFromSitemap \<Rightarrow> urls @ urlsFromSitemap)
      in if isInvalidSitemapIndexContent indexError \<and> isInvalidXMLSitemapContent sitemapError
         then Inl (NeitherSitemap (String env xmlSitemapURL))
         else Inr urls')"

section \<open>The crawl loop\<close>

text \<open>
  A work request is the target and the closure \<open>Execute\<close>; the closure is represented by
  the crawl request it captures.
\<close>

record WorkRequest =
  URL :: url
  captured :: URLCrawlRequest

definition createWorkRequest :: "URLCrawlRequest \<Rightarrow> WorkRequest" where
  "createWorkRequest urlToCrawl = \<lparr>URL = TargetURL urlToCrawl, captured = urlToCrawl\<rparr>"

text \<open>
  The state the loop of \<open>crawl\<close> acts on: the global map \<open>visitedURLs\<close> and the work
  requests sent to \<open>WorkQueue\<close>, oldest first.
\<close>

record crawl_state =
  visitedURLs :: "string \<Rightarrow> url option"
  WorkQueue :: "WorkRequest list"

text \<open>Lines 55-69: the body of the loop for one received crawl request.\<close>

definition crawl_step :: "env \<Rightarrow> crawl_state \<Rightarrow> URLCrawlRequest \<Rightarrow> crawl_state" where
  "crawl_step env st urlCrawlRequest =
     (case visitedURLs st (String env (TargetURL urlCrawlRequest)) of
        Some _ \<Rightarrow> st
      | None \<Rightarrow>
          st\<lparr>visitedURLs :=
               (visitedURLs st)(String env (TargetURL urlCrawlRequest) \<mapsto> TargetURL urlCrawlRequest),
             WorkQueue := WorkQueue st @ [createWorkRequest urlCrawlRequest]\<rparr>)"

text \<open>
  Lines 53-71: the loop receives from \<open>crawlRequestQueue\<close> until the channel is closed.
  The loop is the only reader of the channel and runs in one goroutine, so a run is
  determined by the sequence of requests it receives, in order of receipt.
\<close>

fun crawl_loop :: "env \<Rightarrow> crawl_state \<Rightarrow> URLCrawlRequest list \<Rightarrow> crawl_state" where
  "crawl_loop env st [] = st"
| "crawl_loop env st (r # rs) = crawl_loop env (crawl_step env st r) rs"

text \<open>
  \<open>crawl\<close>: the sitemap's addresses are queued first, with the sitemap as parent;
  \<open>arrivals\<close> are the requests the workers send before the channel is closed, in the
  order the loop receives them.
\<close>

definition crawl :: "env \<Rightarrow> crawl_state \<Rightarrow> url \<Rightarrow> URLCrawlRequest list \<Rightarrow> error option \<times> crawl_state" where
  "crawl env st xmlSitemapURL arrivals =
     (case getURLs env xmlSitemapURL of
        Inl err \<Rightarrow> (Some err, st)
      | Inr urlsFromXMLSitemap \<Rightarrow>
          (None,
           crawl_loop env st
             (map (\<lambda>xmlSitemapURLEntry.
                     \<lparr>ParentURL = xmlSitemapURL, TargetURL = xmlSitemapURLEntry\<rparr>)
                urlsFromXMLSitemap @ arrivals)))"

section \<open>Executing a work request\<close>

text \<open>
  What one run of the closure \<open>Execute\<close> does to the outside: the crawl requests it sends
  to \<open>newUrls\<close> and the records it passes to \<open>updateStatistics\<close>, both in order.
\<close>

record effects =
  sent :: "URLCrawlRequest list"
  recorded :: "WorkResult list"

text \<open>
  How a run of the closure ends. It panics; or it stays blocked for ever in a send to
  \<open>newUrls\<close> (lines 96-101: the channel is bounded, line 32, and a send waits for room),
  after the sends that went through; or it returns, with its effects.
\<close>

datatype run = Panicked | Stalled "URLCrawlRequest list" | Finished effects

text \<open>The records a run has passed to \<open>updateStatistics\<close>.\<close>

definition recordsOf :: "run \<Rightarrow> WorkResult list" where
  "recordsOf r = (case r of Finished eff \<Rightarrow> recorded eff | _ \<Rightarrow> [])"

text \<open>Lines 105-117: the record built from the response.\<close>

definition workResult :: "URLCrawlRequest \<Rightarrow> int \<Rightarrow> int \<Rightarrow> Response \<Rightarrow> WorkResult" where
  "workResult urlToCrawl workerID' numberOfWorkers' response =
     \<lparr>parentURL = ParentURL urlToCrawl, url = TargetURL urlToCrawl,
      workerID = workerID', numberOfWorkers = numberOfWorkers',
      responseSize = Size response, statusCode = StatusCode response,
      startTime = StartTime response, endTime = EndTime response,
      contentType = ContentType response\<rparr>"

text \<open>
  Lines 80-120. \<open>room\<close> is the number of sends to \<open>newUrls\<close> that the channel takes from
  this run, which the reader of the channel and the scheduler decide: a send beyond it
  never completes, and the closure does not reach line 105. \<open>newUrls\<close> below is what the
  closure has to send when link extraction is over: \<open>None\<close> when it has returned early at
  line 93.
\<close>

definition Execute :: "env \<Rightarrow> nat \<Rightarrow> URLCrawlRequest \<Rightarrow> int \<Rightarrow> int \<Rightarrow> run" where
  "Execute env room urlToCrawl workerID' numberOfWorkers' =
     (case readURL env (TargetURL urlToCrawl) of
        Inl err \<Rightarrow> Finished \<lparr>sent = [], recorded = []\<rparr>
      | Inr response \<Rightarrow>
          (case (if IsHTML response
                 then (case getDependentRequests env (TargetURL urlToCrawl) (Body response) of
                         Panic \<Rightarrow> Panic
                       | Return (Inl err) \<Rightarrow> Return None
                       | Return (Inr links) \<Rightarrow>
                           Return (Some (map (\<lambda>link. \<lparr>ParentURL = TargetURL urlToCrawl,
                                                        TargetURL = link\<rparr>) links)))
                 else Return (Some [])) of
             Panic \<Rightarrow> Panicked
           | Return None \<Rightarrow> Finished \<lparr>sent = [], recorded = []\<rparr>
           | Return (Some newUrls) \<Rightarrow>
               if room < length newUrls then Stalled (take room newUrls)
               else Finished \<lparr>sent = newUrls,
                      recorded = [workResult urlToCrawl workerID' numberOfWorkers' response]\<rparr>))"

section \<open>Concrete inputs\<close>

definition httpURL :: "string \<Rightarrow> string \<Rightarrow> url" where
  "httpURL host path = emptyURL\<lparr>Scheme := ''http'', Host := host, Path := path\<rparr>"

text \<open>The environment in which the HTML parser yields the given document.\<close>

definition withDocument :: "env \<Rightarrow> Document \<Rightarrow> env" where
  "withDocument env doc = env\<lparr>NewDocumentFromReader := (\<lambda>_. Inr doc)\<rparr>"

definition exampleBase :: url where
  "exampleBase = httpURL ''example.com'' ''/a/''"

definition subdomainDoc :: Document where
  "subdomainDoc =
     \<lparr>base_hrefs = [], a_hrefs = [''http://example.com/p'', ''http://sub.example.com/q'']\<rparr>"

definition emptyState :: crawl_state where
  "emptyState = \<lparr>visitedURLs = Map.empty, WorkQueue = []\<rparr>"

definition request :: "url \<Rightarrow> url \<Rightarrow> URLCrawlRequest" where
  "request parent target = \<lparr>ParentURL = parent, TargetURL = target\<rparr>"

text \<open>The work requests a run of the loop adds to \<open>WorkQueue\<close>.\<close>

definition dispatched :: "env \<Rightarrow> crawl_state \<Rightarrow> URLCrawlRequest list \<Rightarrow> WorkRequest list" where
  "dispatched env st rs = drop (length (WorkQueue st)) (WorkQueue (crawl_loop env st rs))"

text \<open>The page of the link-extraction example, and the same page without the link that has a
  fragment.\<close>

definition linksDoc :: Document where
  "linksDoc = \<lparr>base_hrefs = [],
     a_hrefs = [''/x'', ''y'', ''http://example.com/z#frag'', ''http://other.com/w'']\<rparr>"

definition plainLinksDoc :: Document where
  "plainLinksDoc = \<lparr>base_hrefs = [], a_hrefs = [''/x'', ''y'', ''http://other.com/w'']\<rparr>"

text \<open>A page whose base element holds only a fragment, with one relative link.\<close>

definition hashBaseDoc :: Document where
  "hashBaseDoc = \<lparr>base_hrefs = [''#top''], a_hrefs = [''x'']\<rparr>"

text \<open>Sitemap documents, given by the locations they list.\<close>

definition entries :: "string list \<Rightarrow> entry list" where
  "entries locs = map (\<lambda>l. \<lparr>Location = l\<rparr>) locs"

definition rootURL :: url where
  "rootURL = httpURL ''example.com'' ''/sitemap.xml''"

definition childURL :: url where
  "childURL = httpURL ''example.com'' ''/child.xml''"

text \<open>
  A site whose root answers the index reader with \<open>rootIndex\<close> and the sitemap reader with
  \<open>rootFlat\<close>, and whose document \<open>/child.xml\<close> is a flat sitemap listing \<open>/a\<close> and \<open>/b\<close>.
  Every other read reports the wrong format.
\<close>

definition siteWeb :: "error + SitemapIndex \<Rightarrow> error + XMLSitemap \<Rightarrow> env" where
  "siteWeb rootIndex rootFlat = go_env
     \<lparr>getSitemapIndex := (\<lambda>u. if u = rootURL then rootIndex else Inl InvalidSitemapIndexContent),
      getXMLSitemap := (\<lambda>u. if u = rootURL then rootFlat
          else if u = childURL
            then Inr \<lparr>URLs = entries [''http://example.com/a'', ''http://example.com/b'']\<rparr>
          else Inl InvalidXMLSitemapContent)\<rparr>"

definition childIndex :: SitemapIndex where
  "childIndex = \<lparr>Sitemaps = entries [''http://example.com/child.xml'']\<rparr>"

text \<open>The root is an index of \<open>/child.xml\<close> and also a flat sitemap listing \<open>/c\<close>.\<close>

definition mergeWeb :: env where
  "mergeWeb = siteWeb (Inr childIndex) (Inr \<lparr>URLs = entries [''http://example.com/c'']\<rparr>)"

text \<open>The root is an index whose second child, and a sitemap whose second entry, does not
  parse as an address.\<close>

definition brokenWeb :: env where
  "brokenWeb = siteWeb (Inr \<lparr>Sitemaps = entries [''http://example.com/child.xml'', '':bad'']\<rparr>)
     (Inr \<lparr>URLs = entries [''http://example.com/a'', '':bad'']\<rparr>)"

text \<open>
  The root is an index of \<open>/child.xml\<close>, which is itself an index of \<open>/grandchild.xml\<close>, a
  flat sitemap listing \<open>/g\<close>.
\<close>

definition nestedWeb :: env where
  "nestedWeb = go_env
     \<lparr>getSitemapIndex := (\<lambda>u. if u = rootURL then Inr childIndex
          else if u = childURL
            then Inr \<lparr>Sitemaps = entries [''http://example.com/grandchild.xml'']\<rparr>
          else Inl InvalidSitemapIndexContent),
      getXMLSitemap := (\<lambda>u. if u = httpURL ''example.com'' ''/grandchild.xml''
            then Inr \<lparr>URLs = entries [''http://example.com/g'']\<rparr>
          else Inl InvalidXMLSitemapContent)\<rparr>"

text \<open>An index reader that answers for the root only.\<close>

definition rootOnlyIndex :: "url \<Rightarrow> error + SitemapIndex" where
  "rootOnlyIndex u = (if u = rootURL then Inr childIndex else Inl (Failure ''not asked''))"

text \<open>A fetched HTML page, and environments in which every fetch returns a given response.\<close>

definition htmlResponse :: Response where
  "htmlResponse = \<lparr>Body = ''<html>'', IsHTML = True, Size = 6, StatusCode = 200,
     StartTime = 0, EndTime = 1, ContentType = ''text/html''\<rparr>"

definition withResponse :: "env \<Rightarrow> Response \<Rightarrow> env" where
  "withResponse env response = env\<lparr>readURL := (\<lambda>_. Inr response)\<rparr>"

text \<open>The environment in which the HTML parser reports an error.\<close>

definition withParserError :: "env \<Rightarrow> env" where
  "withParserError env = env\<lparr>NewDocumentFromReader := (\<lambda>_. Inl (Failure ''read error''))\<rparr>"

text \<open>A sitemap listing one address twice, with and without a fragment.\<close>

definition fragmentWeb :: env where
  "fragmentWeb = siteWeb (Inl InvalidSitemapIndexContent)
     (Inr \<lparr>URLs = entries [''http://example.com/a'', ''http://example.com/a#top'']\<rparr>)"

section \<open>Shared lemmas\<close>

lemmas go_url_defs = go_Parse_def go_parse_def Cut_def HasPrefix_def HasSuffix_def Contains_def
  getScheme_def emptyURL_def stringContainsCTLByte_def lowerLetters_def upperLetters_def
  digitChars_def ToLower_def parseHost_def validOptionalPort_def hostChars_def
  go_String_def go_String_authority_def go_String_path_def httpURL_def

lemmas link_defs = getDependentRequests_def effectiveBase_def resolveHref_def cutHash_def
  eachLink_def slice_def TrimSuffix_def withDocument_def go_env_def

lemma eachLink_host:
  assumes "eachLink env baseURL base urls h = Return urls'"
    and "\<forall>u \<in> set urls. Host u = Host baseURL"
  shows "\<forall>u \<in> set urls'. Host u = Host baseURL"
  using assms
  by (auto simp: eachLink_def split: outcome.splits sum.splits if_splits)

lemma Each_host:
  "Each env baseURL base hs urls = Return urls' \<Longrightarrow>
   \<forall>u \<in> set urls. Host u = Host baseURL \<Longrightarrow>
   \<forall>u \<in> set urls'. Host u = Host baseURL"
proof (induction hs arbitrary: urls)
  case Nil
  then show ?case by simp
next
  case (Cons h hs)
  from Cons.prems(1) obtain mid where
    step: "eachLink env baseURL base urls h = Return mid" and
    rest: "Each env baseURL base hs mid = Return urls'"
    by (auto split: outcome.splits)
  from eachLink_host[OF step Cons.prems(2)] Cons.IH[OF rest] show ?case by blast
qed

lemma crawl_step_queue:
  "\<exists>D. WorkQueue (crawl_step env st r) = WorkQueue st @ D \<and>
       distinct (map (\<lambda>w. String env (URL w)) D) \<and>
       (\<forall>w \<in> set D. visitedURLs st (String env (URL w)) = None) \<and>
       dom (visitedURLs (crawl_step env st r)) =
         dom (visitedURLs st) \<union> (\<lambda>w. String env (URL w)) ` set D"
  by (cases "visitedURLs st (String env (TargetURL r))")
     (auto simp: crawl_step_def createWorkRequest_def)

lemma crawl_loop_queue:
  "\<exists>D. WorkQueue (crawl_loop env st rs) = WorkQueue st @ D \<and>
       distinct (map (\<lambda>w. String env (URL w)) D) \<and>
       (\<forall>w \<in> set D. visitedURLs st (String env (URL w)) = None) \<and>
       dom (visitedURLs (crawl_loop env st rs)) =
         dom (visitedURLs st) \<union> (\<lambda>w. String env (URL w)) ` set D"
proof (induction rs arbitrary: st)
  case Nil
  show ?case by simp
next
  case (Cons r rs)
  let ?k = "\<lambda>w. String env (URL w)"
  let ?st1 = "crawl_step env st r"
  obtain D1 where 1: "WorkQueue ?st1 = WorkQueue st @ D1"
    "distinct (map ?k D1)" "\<forall>w \<in> set D1. visitedURLs st (?k w) = None"
    "dom (visitedURLs ?st1) = dom (visitedURLs st) \<union> ?k ` set D1"
    using crawl_step_queue[of env st r] by blast
  obtain D2 where 2: "WorkQueue (crawl_loop env ?st1 rs) = WorkQueue ?st1 @ D2"
    "distinct (map ?k D2)" "\<forall>w \<in> set D2. visitedURLs ?st1 (?k w) = None"
    "dom (visitedURLs (crawl_loop env ?st1 rs)) = dom (visitedURLs ?st1) \<union> ?k ` set D2"
    using Cons.IH[of ?st1] by blast
  have fresh: "\<forall>w \<in> set D2. ?k w \<notin> dom (visitedURLs st) \<union> ?k ` set D1"
    using 2(3) 1(4) by (metis domIff)
  have "WorkQueue (crawl_loop env st (r # rs)) = WorkQueue st @ (D1 @ D2)"
    using 1(1) 2(1) by simp
  moreover have "distinct (map ?k (D1 @ D2))"
    using 1(2) 2(2) fresh by (fastforce simp: image_iff)
  moreover have "\<forall>w \<in> set (D1 @ D2). visitedURLs st (?k w) = None"
    using 1(3) fresh by (auto simp: domIff)
  moreover have "dom (visitedURLs (crawl_loop env st (r # rs))) =
      dom (visitedURLs st) \<union> ?k ` set (D1 @ D2)"
    using 1(4) 2(4) by auto
  ultimately show ?case by blast
qed

lemma Index_hash:
  "CHR ''#'' \<notin> set pre \<Longrightarrow> Index (pre @ CHR ''#'' # post) ''#'' = int (length pre)"
  by (induction pre) (auto simp: HasPrefix_def)

lemma url_neqs:
  "childURL \<noteq> rootURL" "rootURL \<noteq> childURL"
  "rootURL \<noteq> httpURL ''example.com'' ''/grandchild.xml''"
  "childURL \<noteq> httpURL ''example.com'' ''/grandchild.xml''"
  by (simp_all add: childURL_def rootURL_def httpURL_def emptyURL_def)

lemma parse_examples:
  "go_Parse ''http://example.com/child.xml'' = Inr childURL"
  "go_Parse ''http://example.com/a'' = Inr (httpURL ''example.com'' ''/a'')"
  "go_Parse ''http://example.com/b'' = Inr (httpURL ''example.com'' ''/b'')"
  "go_Parse ''http://example.com/c'' = Inr (httpURL ''example.com'' ''/c'')"
  "go_Parse '':bad'' = Inl (Failure ''missing protocol scheme'')"
  by (simp_all add: go_url_defs childURL_def)

lemma siteWeb_simps:
  "getSitemapIndex (siteWeb ri rf) rootURL = ri"
  "getXMLSitemap (siteWeb ri rf) rootURL = rf"
  "getXMLSitemap (siteWeb ri rf) childURL
     = Inr \<lparr>URLs = entries [''http://example.com/a'', ''http://example.com/b'']\<rparr>"
  "Parse (siteWeb ri rf) = go_Parse"
  "String (siteWeb ri rf) = go_String"
  by (simp_all add: siteWeb_def go_env_def url_neqs)

lemma siteWeb_child:
  "getURLsFromSitemap (siteWeb ri rf) childURL
     = Inr [httpURL ''example.com'' ''/a'', httpURL ''example.com'' ''/b'']"
  by (simp add: getURLsFromSitemap_def siteWeb_simps entries_def parse_examples)

lemma parseEntries_no_index:
  "parseEntries (env\<lparr>getSitemapIndex := f\<rparr>) es urls = parseEntries env es urls"
  by (induction es arbitrary: urls) (auto split: sum.splits)

lemma getURLsFromSitemap_no_index:
  "getURLsFromSitemap (env\<lparr>getSitemapIndex := f\<rparr>) l = getURLsFromSitemap env l"
  by (simp add: getURLsFromSitemap_def parseEntries_no_index split: sum.splits)

lemma resolveChildren_no_index:
  "resolveChildren (env\<lparr>getSitemapIndex := f\<rparr>) ss urls = resolveChildren env ss urls"
  by (induction ss arbitrary: urls) (auto simp: getURLsFromSitemap_no_index split: sum.splits)

lemma resolveChildren_concat:
  "resolveChildren env ss urls = Inr res \<Longrightarrow>
   \<exists>uss. list_all2 (\<lambda>s us. \<exists>l. Parse env (Location s) = Inr l
                             \<and> getURLsFromSitemap env l = Inr us) ss uss
     \<and> res = urls @ concat uss"
proof (induction ss arbitrary: urls)
  case Nil
  then show ?case by simp
next
  case (Cons s ss)
  from Cons.prems obtain l us where
    l: "Parse env (Location s) = Inr l" and us: "getURLsFromSitemap env l = Inr us" and
    rest: "resolveChildren env ss (urls @ us) = Inr res"
    by (auto split: sum.splits)
  from Cons.IH[OF rest] obtain uss where
    uss: "list_all2 (\<lambda>s us. \<exists>l. Parse env (Location s) = Inr l
                              \<and> getURLsFromSitemap env l = Inr us) ss uss"
      "res = (urls @ us) @ concat uss"
    by blast
  have "list_all2 (\<lambda>s us. \<exists>l. Parse env (Location s) = Inr l
                            \<and> getURLsFromSitemap env l = Inr us) (s # ss) (us # uss)"
    using l us uss(1) by simp
  moreover have "res = urls @ concat (us # uss)" using uss(2) by simp
  ultimately show ?case by blast
qed

lemma parseEntries_fails:
  "e \<in> set es \<Longrightarrow> Parse env (Location e) = Inl err \<Longrightarrow>
   \<exists>err'. parseEntries env es urls = Inl err'"
  by (induction es arbitrary: urls) (auto split: sum.splits)

lemma resolveChildren_fails:
  "s \<in> set ss \<Longrightarrow>
   Parse env (Location s) = Inl err
     \<or> (\<exists>l. Parse env (Location s) = Inr l \<and> getURLsFromSitemap env l = Inl err) \<Longrightarrow>
   \<exists>err'. resolveChildren env ss urls = Inl err'"
  by (induction ss arbitrary: urls) (auto split: sum.splits)

section \<open>Properties\<close>

text \<open>
  C1. Deduplication in the drain loop of \<open>crawl\<close>. From any state of the seen-set and for
  any sequence of received crawl requests, the work requests the loop submits have
  pairwise different target strings, none of them was in the seen-set before, and the
  seen-set afterwards is the old one plus exactly the submitted strings. Since the state
  is arbitrary, this covers every later part of a run: once a string is in the seen-set,
  no work request with that target string is submitted, whatever page the request comes
  from. The same holds of a whole run of \<open>crawl\<close>, whatever the sitemap lists and the
  workers send.
\<close>

theorem crawl_dispatches_each_url_once:
  "WorkQueue (crawl_loop env st rs) = WorkQueue st @ dispatched env st rs \<and>
   distinct (map (\<lambda>w. String env (URL w)) (dispatched env st rs)) \<and>
   (\<forall>w \<in> set (dispatched env st rs). visitedURLs st (String env (URL w)) = None) \<and>
   dom (visitedURLs (crawl_loop env st rs)) =
     dom (visitedURLs st) \<union> (\<lambda>w. String env (URL w)) ` set (dispatched env st rs) \<and>
   (\<exists>D. WorkQueue (snd (crawl env st xmlSitemapURL arrivals)) = WorkQueue st @ D \<and>
        distinct (map (\<lambda>w. String env (URL w)) D) \<and>
        (\<forall>w \<in> set D. visitedURLs st (String env (URL w)) = None))"
proof -
  obtain D where D: "WorkQueue (crawl_loop env st rs) = WorkQueue st @ D"
    "distinct (map (\<lambda>w. String env (URL w)) D)"
    "\<forall>w \<in> set D. visitedURLs st (String env (URL w)) = None"
    "dom (visitedURLs (crawl_loop env st rs)) =
       dom (visitedURLs st) \<union> (\<lambda>w. String env (URL w)) ` set D"
    using crawl_loop_queue[of env st rs] by blast
  have "dispatched env st rs = D" by (simp add: dispatched_def D(1))
  moreover have "\<exists>D. WorkQueue (snd (crawl env st xmlSitemapURL arrivals)) = WorkQueue st @ D \<and>
        distinct (map (\<lambda>w. String env (URL w)) D) \<and>
        (\<forall>w \<in> set D. visitedURLs st (String env (URL w)) = None)"
  proof (cases "getURLs env xmlSitemapURL")
    case (Inl err)
    then show ?thesis by (simp add: crawl_def)
  next
    case (Inr seeds)
    let ?rs = "map (\<lambda>xmlSitemapURLEntry.
        \<lparr>ParentURL = xmlSitemapURL, TargetURL = xmlSitemapURLEntry\<rparr>) seeds @ arrivals"
    have "snd (crawl env st xmlSitemapURL arrivals) = crawl_loop env st ?rs"
      using Inr by (simp add: crawl_def)
    then show ?thesis using crawl_loop_queue[of env st ?rs] by auto
  qed
  ultimately show ?thesis using D by simp
qed

text \<open>
  A run on three requests, the third one for the target of the first, found on another
  page: two work requests are submitted.
\<close>

theorem crawl_dispatches_each_url_once_witness:
  "WorkQueue (crawl_loop go_env emptyState
      [request (httpURL ''example.com'' ''/sitemap.xml'') (httpURL ''example.com'' ''/a''),
       request (httpURL ''example.com'' ''/sitemap.xml'') (httpURL ''example.com'' ''/b''),
       request (httpURL ''example.com'' ''/b'') (httpURL ''example.com'' ''/a'')])
    = [createWorkRequest
         (request (httpURL ''example.com'' ''/sitemap.xml'') (httpURL ''example.com'' ''/a'')),
       createWorkRequest
         (request (httpURL ''example.com'' ''/sitemap.xml'') (httpURL ''example.com'' ''/b''))]
   \<and> distinct (map (\<lambda>w. String go_env (URL w)) (dispatched go_env emptyState
      [request (httpURL ''example.com'' ''/sitemap.xml'') (httpURL ''example.com'' ''/a''),
       request (httpURL ''example.com'' ''/sitemap.xml'') (httpURL ''example.com'' ''/b''),
       request (httpURL ''example.com'' ''/b'') (httpURL ''example.com'' ''/a'')]))"
proof -
  let ?rs = "[request (httpURL ''example.com'' ''/sitemap.xml'') (httpURL ''example.com'' ''/a''),
       request (httpURL ''example.com'' ''/sitemap.xml'') (httpURL ''example.com'' ''/b''),
       request (httpURL ''example.com'' ''/b'') (httpURL ''example.com'' ''/a'')]"
  have run: "WorkQueue (crawl_loop go_env emptyState ?rs)
    = [createWorkRequest
         (request (httpURL ''example.com'' ''/sitemap.xml'') (httpURL ''example.com'' ''/a'')),
       createWorkRequest
         (request (httpURL ''example.com'' ''/sitemap.xml'') (httpURL ''example.com'' ''/b''))]"
    by (simp add: crawl_step_def emptyState_def request_def go_env_def go_url_defs)
  from crawl_dispatches_each_url_once[of go_env emptyState ?rs] run show ?thesis by simp
qed

text \<open>
  C7. Same-host scoping of link extraction. For every base address and every input, each
  address \<open>getDependentRequests\<close> returns has exactly the host of the base address: the
  comparison is equality of the host strings, so a subdomain of the base host is dropped
  like any other host.
\<close>

theorem getDependentRequests_same_host:
  "getDependentRequests env baseURL input = Return (Inr urls) \<Longrightarrow> u \<in> set urls \<Longrightarrow>
   Host u = Host baseURL"
  by (auto simp: getDependentRequests_def split: sum.splits outcome.splits dest!: Each_host)

text \<open>
  A page of example.com linking to example.com and to sub.example.com: only the first
  link is returned.
\<close>

theorem getDependentRequests_same_host_witness:
  "getDependentRequests (withDocument go_env subdomainDoc) exampleBase ''<html>''
     = Return (Inr [httpURL ''example.com'' ''/p''])
   \<and> httpURL ''example.com'' ''/p'' \<in> set [httpURL ''example.com'' ''/p'']
   \<and> Host (httpURL ''example.com'' ''/p'') = Host exampleBase"
proof -
  have run: "getDependentRequests (withDocument go_env subdomainDoc) exampleBase ''<html>''
     = Return (Inr [httpURL ''example.com'' ''/p''])"
    by (simp add: link_defs go_url_defs subdomainDoc_def exampleBase_def)
  have mem: "httpURL ''example.com'' ''/p'' \<in> set [httpURL ''example.com'' ''/p'']"
    by simp
  from run mem getDependentRequests_same_host[OF run mem] show ?thesis by simp
qed

text \<open>
  C4. Fragment stripping cuts one character too early. When the first \<open>#\<close> of the resolved
  reference has a character \<open>c\<close> before it, the result is the text before \<open>c\<close>: the
  character before \<open>#\<close> is dropped as well. When \<open>#\<close> is the first character, the slice
  \<open>href[0 : -1]\<close> is out of range and the code panics; link extraction reaches this on a
  page whose base element is \<open>#top\<close> and that has the relative link \<open>x\<close>.
\<close>

theorem cutHash_drops_preceding_char:
  "(CHR ''#'' \<notin> set pre \<and> c \<noteq> CHR ''#'' \<longrightarrow>
      cutHash (pre @ c # CHR ''#'' # post) = Return pre)
   \<and> cutHash (CHR ''#'' # post) = Panic
   \<and> getDependentRequests (withDocument go_env hashBaseDoc) exampleBase ''<html>'' = Panic"
proof (intro conjI impI)
  assume a: "CHR ''#'' \<notin> set pre \<and> c \<noteq> CHR ''#''"
  then have "CHR ''#'' \<notin> set (pre @ [c])" by auto
  from Index_hash[OF this, of post]
  have i: "Index (pre @ c # CHR ''#'' # post) ''#'' = int (length pre) + 1" by simp
  show "cutHash (pre @ c # CHR ''#'' # post) = Return pre"
    by (simp add: cutHash_def Contains_def i slice_def)
next
  show "cutHash (CHR ''#'' # post) = Panic"
    by (simp add: cutHash_def Contains_def HasPrefix_def slice_def)
next
  show "getDependentRequests (withDocument go_env hashBaseDoc) exampleBase ''<html>'' = Panic"
    by (simp add: link_defs go_url_defs hashBaseDoc_def exampleBase_def)
qed

text \<open>The link \<open>http://example.com/z#frag\<close> loses its \<open>z\<close>.\<close>

theorem cutHash_drops_preceding_char_witness:
  "CHR ''#'' \<notin> set ''http://example.com/'' \<and> CHR ''z'' \<noteq> CHR ''#''
   \<and> cutHash ''http://example.com/z#frag'' = Return ''http://example.com/''"
proof -
  have h: "CHR ''#'' \<notin> set ''http://example.com/'' \<and> CHR ''z'' \<noteq> CHR ''#''" by simp
  from cutHash_drops_preceding_char[of "''http://example.com/''" "CHR ''z''" "''frag''"] h
  show ?thesis by simp
qed

text \<open>
  C3, as stated, fails. For the base address \<open>http://example.com/a/\<close> and the links \<open>/x\<close>,
  \<open>y\<close>, \<open>http://example.com/z#frag\<close> and \<open>http://other.com/w\<close>, link extraction returns
  \<open>http://example.com/x\<close>, \<open>http://example.com/y\<close> and \<open>http://example.com/\<close>, which is not
  the set \<open>{http://example.com/x, http://example.com/a/y, http://example.com/z}\<close>.
\<close>

theorem getDependentRequests_example_counterexample:
  "getDependentRequests (withDocument go_env linksDoc) exampleBase ''<html>''
     = Return (Inr [httpURL ''example.com'' ''/x'', httpURL ''example.com'' ''/y'',
                    httpURL ''example.com'' ''/''])
   \<and> set [httpURL ''example.com'' ''/x'', httpURL ''example.com'' ''/y'',
           httpURL ''example.com'' ''/'']
       \<noteq> {httpURL ''example.com'' ''/x'', httpURL ''example.com'' ''/a/y'',
           httpURL ''example.com'' ''/z''}"
proof
  show "getDependentRequests (withDocument go_env linksDoc) exampleBase ''<html>''
     = Return (Inr [httpURL ''example.com'' ''/x'', httpURL ''example.com'' ''/y'',
                    httpURL ''example.com'' ''/''])"
    by (simp add: link_defs go_url_defs linksDoc_def exampleBase_def)
next
  have "httpURL ''example.com'' ''/y''
      \<notin> {httpURL ''example.com'' ''/x'', httpURL ''example.com'' ''/a/y'',
         httpURL ''example.com'' ''/z''}"
    by (simp add: httpURL_def emptyURL_def)
  then show "set [httpURL ''example.com'' ''/x'', httpURL ''example.com'' ''/y'',
           httpURL ''example.com'' ''/'']
       \<noteq> {httpURL ''example.com'' ''/x'', httpURL ''example.com'' ''/a/y'',
           httpURL ''example.com'' ''/z''}"
    by (metis list.set_intros(1,2))
qed

text \<open>
  C3, amended. For the base address \<open>http://example.com/a/\<close>, the links \<open>/x\<close>, \<open>y\<close> and
  \<open>http://other.com/w\<close> yield exactly \<open>http://example.com/x\<close> and \<open>http://example.com/y\<close>:
  the relative link is joined to \<open>scheme://host\<close>, not to the path \<open>/a/\<close> of the base
  address, and the link to the other host is excluded. With the link
  \<open>http://example.com/z#frag\<close> added, these two addresses are still returned and
  \<open>http://example.com/a/y\<close> and \<open>http://other.com/w\<close> are not; what the link with the
  fragment yields is left open here.
\<close>

theorem getDependentRequests_example:
  "getDependentRequests (withDocument go_env plainLinksDoc) exampleBase ''<html>''
     = Return (Inr [httpURL ''example.com'' ''/x'', httpURL ''example.com'' ''/y''])
   \<and> (\<exists>urls. getDependentRequests (withDocument go_env linksDoc) exampleBase ''<html>''
          = Return (Inr urls)
        \<and> httpURL ''example.com'' ''/x'' \<in> set urls
        \<and> httpURL ''example.com'' ''/y'' \<in> set urls
        \<and> httpURL ''example.com'' ''/a/y'' \<notin> set urls
        \<and> httpURL ''other.com'' ''/w'' \<notin> set urls)"
proof
  show "getDependentRequests (withDocument go_env plainLinksDoc) exampleBase ''<html>''
     = Return (Inr [httpURL ''example.com'' ''/x'', httpURL ''example.com'' ''/y''])"
    by (simp add: link_defs go_url_defs plainLinksDoc_def exampleBase_def)
next
  have "getDependentRequests (withDocument go_env linksDoc) exampleBase ''<html>''
     = Return (Inr [httpURL ''example.com'' ''/x'', httpURL ''example.com'' ''/y'',
                    httpURL ''example.com'' ''/''])"
    by (simp add: link_defs go_url_defs linksDoc_def exampleBase_def)
  moreover have
    "httpURL ''example.com'' ''/a/y''
       \<notin> set [httpURL ''example.com'' ''/x'', httpURL ''example.com'' ''/y'',
              httpURL ''example.com'' ''/'']"
    "httpURL ''other.com'' ''/w''
       \<notin> set [httpURL ''example.com'' ''/x'', httpURL ''example.com'' ''/y'',
              httpURL ''example.com'' ''/'']"
    by (simp_all add: httpURL_def emptyURL_def)
  ultimately show "\<exists>urls. getDependentRequests (withDocument go_env linksDoc) exampleBase ''<html>''
          = Return (Inr urls)
        \<and> httpURL ''example.com'' ''/x'' \<in> set urls
        \<and> httpURL ''example.com'' ''/y'' \<in> set urls
        \<and> httpURL ''example.com'' ''/a/y'' \<notin> set urls
        \<and> httpURL ''other.com'' ''/w'' \<notin> set urls"
    by simp
qed

text \<open>
  C6. Sitemap merge. When the root is read both as a sitemap index with one child sitemap,
  whose two entries parse to \<open>A\<close> and \<open>B\<close>, and as a flat sitemap whose one entry parses to
  \<open>C\<close>, \<open>getURLs\<close> returns \<open>A\<close>, \<open>B\<close>, \<open>C\<close> (the addresses of the index first) and no error.
\<close>

theorem getURLs_merge:
  assumes "getSitemapIndex env root = Inr \<lparr>Sitemaps = [\<lparr>Location = c\<rparr>]\<rparr>"
    and "Parse env c = Inr child"
    and "getXMLSitemap env child = Inr \<lparr>URLs = [\<lparr>Location = la\<rparr>, \<lparr>Location = lb\<rparr>]\<rparr>"
    and "Parse env la = Inr A" and "Parse env lb = Inr B"
    and "getXMLSitemap env root = Inr \<lparr>URLs = [\<lparr>Location = lc\<rparr>]\<rparr>"
    and "Parse env lc = Inr C"
  shows "getURLs env root = Inr [A, B, C]"
proof -
  have child: "getURLsFromSitemap env child = Inr [A, B]"
    using assms(3,4,5) by (simp add: getURLsFromSitemap_def)
  have idx: "getURLsFromSitemapIndex env root = Inr [A, B]"
    using assms(1,2) child by (simp add: getURLsFromSitemapIndex_def)
  have flat: "getURLsFromSitemap env root = Inr [C]"
    using assms(6,7) by (simp add: getURLsFromSitemap_def)
  show ?thesis
    by (simp add: getURLs_def idx flat errorOf_def isInvalidSitemapIndexContent_def)
qed

text \<open>The site whose root is an index of \<open>/child.xml\<close> and a flat sitemap listing \<open>/c\<close>.\<close>

theorem getURLs_merge_witness:
  "getURLs mergeWeb rootURL
     = Inr [httpURL ''example.com'' ''/a'', httpURL ''example.com'' ''/b'',
            httpURL ''example.com'' ''/c'']"
proof -
  have 1: "getSitemapIndex mergeWeb rootURL
      = Inr \<lparr>Sitemaps = [\<lparr>Location = ''http://example.com/child.xml''\<rparr>]\<rparr>"
    by (simp add: mergeWeb_def siteWeb_simps childIndex_def entries_def)
  have 2: "Parse mergeWeb ''http://example.com/child.xml'' = Inr childURL"
    by (simp add: mergeWeb_def siteWeb_simps parse_examples)
  have 3: "getXMLSitemap mergeWeb childURL
      = Inr \<lparr>URLs = [\<lparr>Location = ''http://example.com/a''\<rparr>,
                      \<lparr>Location = ''http://example.com/b''\<rparr>]\<rparr>"
    by (simp add: mergeWeb_def siteWeb_simps entries_def)
  have 4: "Parse mergeWeb ''http://example.com/a'' = Inr (httpURL ''example.com'' ''/a'')"
    by (simp add: mergeWeb_def siteWeb_simps parse_examples)
  have 5: "Parse mergeWeb ''http://example.com/b'' = Inr (httpURL ''example.com'' ''/b'')"
    by (simp add: mergeWeb_def siteWeb_simps parse_examples)
  have 6: "getXMLSitemap mergeWeb rootURL
      = Inr \<lparr>URLs = [\<lparr>Location = ''http://example.com/c''\<rparr>]\<rparr>"
    by (simp add: mergeWeb_def siteWeb_simps entries_def)
  have 7: "Parse mergeWeb ''http://example.com/c'' = Inr (httpURL ''example.com'' ''/c'')"
    by (simp add: mergeWeb_def siteWeb_simps parse_examples)
  from getURLs_merge[OF 1 2 3 4 5 6 7] show ?thesis .
qed

text \<open>
  C9. Index resolution goes one level deep. The index reader is asked about the root
  only: replacing it by any reader \<open>f\<close> that agrees with it on the root changes neither the
  result of \<open>getURLsFromSitemapIndex\<close> nor that of \<open>getURLs\<close>, so what a child would list as
  an index never reaches the result. Every address the index probe returns comes from
  resolving a direct child as a flat sitemap with \<open>getURLsFromSitemap\<close>, which does not
  use the index reader at all.
\<close>

theorem index_resolution_one_level:
  "(f root = getSitemapIndex env root \<longrightarrow>
      getURLsFromSitemapIndex (env\<lparr>getSitemapIndex := f\<rparr>) root = getURLsFromSitemapIndex env root
      \<and> getURLs (env\<lparr>getSitemapIndex := f\<rparr>) root = getURLs env root)
   \<and> (getSitemapIndex env root = Inr idx \<and> getURLsFromSitemapIndex env root = Inr urls \<longrightarrow>
        (\<exists>uss. list_all2 (\<lambda>s us. \<exists>l. Parse env (Location s) = Inr l
                                  \<and> getURLsFromSitemap env l = Inr us) (Sitemaps idx) uss
              \<and> urls = concat uss))
   \<and> getURLsFromSitemap (env\<lparr>getSitemapIndex := f\<rparr>) child = getURLsFromSitemap env child"
proof (intro conjI impI)
  assume eq: "f root = getSitemapIndex env root"
  show idx: "getURLsFromSitemapIndex (env\<lparr>getSitemapIndex := f\<rparr>) root
      = getURLsFromSitemapIndex env root"
    using eq by (simp add: getURLsFromSitemapIndex_def resolveChildren_no_index split: sum.splits)
  show "getURLs (env\<lparr>getSitemapIndex := f\<rparr>) root = getURLs env root"
    by (simp add: getURLs_def idx getURLsFromSitemap_no_index Let_def)
next
  assume "getSitemapIndex env root = Inr idx \<and> getURLsFromSitemapIndex env root = Inr urls"
  then have "resolveChildren env (Sitemaps idx) [] = Inr urls"
    by (auto simp: getURLsFromSitemapIndex_def)
  from resolveChildren_concat[OF this]
  show "\<exists>uss. list_all2 (\<lambda>s us. \<exists>l. Parse env (Location s) = Inr l
                                  \<and> getURLsFromSitemap env l = Inr us) (Sitemaps idx) uss
              \<and> urls = concat uss"
    by simp
next
  show "getURLsFromSitemap (env\<lparr>getSitemapIndex := f\<rparr>) child = getURLsFromSitemap env child"
    by (rule getURLsFromSitemap_no_index)
qed

text \<open>
  On the site whose child is itself an index of a grandchild listing \<open>/g\<close>, the result is
  the same as with an index reader that knows the root only: the child is read as a flat
  sitemap, which fails, and \<open>/g\<close> is not returned. On the merge site the index probe
  returns the addresses of its one child.
\<close>

theorem index_resolution_one_level_witness:
  "rootOnlyIndex rootURL = getSitemapIndex nestedWeb rootURL
   \<and> getSitemapIndex nestedWeb childURL
       = Inr \<lparr>Sitemaps = entries [''http://example.com/grandchild.xml'']\<rparr>
   \<and> rootOnlyIndex childURL = Inl (Failure ''not asked'')
   \<and> getURLsFromSitemapIndex (nestedWeb\<lparr>getSitemapIndex := rootOnlyIndex\<rparr>) rootURL
       = getURLsFromSitemapIndex nestedWeb rootURL
   \<and> getURLs (nestedWeb\<lparr>getSitemapIndex := rootOnlyIndex\<rparr>) rootURL = getURLs nestedWeb rootURL
   \<and> getURLsFromSitemapIndex nestedWeb rootURL = Inl InvalidXMLSitemapContent
   \<and> getURLs nestedWeb rootURL = Inl (NeitherSitemap ''http://example.com/sitemap.xml'')
   \<and> getSitemapIndex mergeWeb rootURL = Inr childIndex
   \<and> getURLsFromSitemapIndex mergeWeb rootURL
       = Inr [httpURL ''example.com'' ''/a'', httpURL ''example.com'' ''/b'']
   \<and> (\<exists>uss. list_all2 (\<lambda>s us. \<exists>l. Parse mergeWeb (Location s) = Inr l
                                  \<and> getURLsFromSitemap mergeWeb l = Inr us)
               (Sitemaps childIndex) uss
          \<and> [httpURL ''example.com'' ''/a'', httpURL ''example.com'' ''/b''] = concat uss)"
proof -
  have h1: "rootOnlyIndex rootURL = getSitemapIndex nestedWeb rootURL"
    by (simp add: rootOnlyIndex_def nestedWeb_def)
  have c1: "getSitemapIndex nestedWeb childURL
       = Inr \<lparr>Sitemaps = entries [''http://example.com/grandchild.xml'']\<rparr>"
    by (simp add: nestedWeb_def url_neqs)
  have c2: "rootOnlyIndex childURL = Inl (Failure ''not asked'')"
    by (simp add: rootOnlyIndex_def url_neqs)
  have r0: "getURLsFromSitemap nestedWeb rootURL = Inl InvalidXMLSitemapContent"
    by (simp add: nestedWeb_def getURLsFromSitemap_def url_neqs)
  have r1: "getURLsFromSitemapIndex nestedWeb rootURL = Inl InvalidXMLSitemapContent"
    by (simp add: nestedWeb_def go_env_def entries_def childIndex_def getURLsFromSitemapIndex_def
        getURLsFromSitemap_def parse_examples url_neqs)
  have rs: "String nestedWeb rootURL = ''http://example.com/sitemap.xml''"
    by (simp add: nestedWeb_def go_env_def rootURL_def go_url_defs)
  have r2: "getURLs nestedWeb rootURL = Inl (NeitherSitemap ''http://example.com/sitemap.xml'')"
    by (simp add: getURLs_def r0 r1 rs errorOf_def isInvalidSitemapIndexContent_def
        isInvalidXMLSitemapContent_def)
  have h2: "getSitemapIndex mergeWeb rootURL = Inr childIndex"
    by (simp add: mergeWeb_def siteWeb_simps)
  have h3: "getURLsFromSitemapIndex mergeWeb rootURL
       = Inr [httpURL ''example.com'' ''/a'', httpURL ''example.com'' ''/b'']"
    by (simp add: mergeWeb_def getURLsFromSitemapIndex_def siteWeb_simps childIndex_def
        entries_def parse_examples siteWeb_child)
  from index_resolution_one_level[of rootOnlyIndex rootURL nestedWeb]
    index_resolution_one_level[of _ rootURL mergeWeb childIndex
       "[httpURL ''example.com'' ''/a'', httpURL ''example.com'' ''/b'']"]
    h1 c1 c2 r1 r2 h2 h3
  show ?thesis by simp
qed

text \<open>
  C10. Entry-level failures are all-or-nothing in sitemap resolution. If one entry of a
  flat sitemap does not parse as an address, \<open>getURLsFromSitemap\<close> returns an error and no
  addresses. If one child of a sitemap index does not parse, or does not resolve as a flat
  sitemap, \<open>getURLsFromSitemapIndex\<close> returns an error and no addresses, whatever earlier
  children have yielded. In link extraction, by contrast, a reference that does not parse
  leaves the addresses gathered so far as they are and the loop goes on.
\<close>

theorem sitemap_entry_failure_is_total:
  "(getXMLSitemap env u = Inr sm \<and> e \<in> set (URLs sm) \<and> Parse env (Location e) = Inl err \<longrightarrow>
      (\<exists>err'. getURLsFromSitemap env u = Inl err'))
   \<and> (getSitemapIndex env u = Inr idx \<and> s \<in> set (Sitemaps idx)
        \<and> (Parse env (Location s) = Inl err
            \<or> (\<exists>l. Parse env (Location s) = Inr l \<and> getURLsFromSitemap env l = Inl err)) \<longrightarrow>
      (\<exists>err'. getURLsFromSitemapIndex env u = Inl err'))
   \<and> (cutHash (resolveHref baseURL base href0) = Return href \<and> Parse env href = Inl err \<longrightarrow>
      eachLink env baseURL base urls href0 = Return urls)"
proof (intro conjI impI)
  assume "getXMLSitemap env u = Inr sm \<and> e \<in> set (URLs sm) \<and> Parse env (Location e) = Inl err"
  then show "\<exists>err'. getURLsFromSitemap env u = Inl err'"
    using parseEntries_fails[of e "URLs sm" env err "[]"] by (auto simp: getURLsFromSitemap_def)
next
  assume "getSitemapIndex env u = Inr idx \<and> s \<in> set (Sitemaps idx)
        \<and> (Parse env (Location s) = Inl err
            \<or> (\<exists>l. Parse env (Location s) = Inr l \<and> getURLsFromSitemap env l = Inl err))"
  then show "\<exists>err'. getURLsFromSitemapIndex env u = Inl err'"
    using resolveChildren_fails[of s "Sitemaps idx" env err "[]"]
    by (auto simp: getURLsFromSitemapIndex_def)
next
  assume "cutHash (resolveHref baseURL base href0) = Return href \<and> Parse env href = Inl err"
  then show "eachLink env baseURL base urls href0 = Return urls"
    by (auto simp: eachLink_def)
qed

text \<open>
  A sitemap with a good and a bad entry, an index with a good and a bad child, and a page
  link with a blank in its host.
\<close>

theorem sitemap_entry_failure_is_total_witness:
  "getXMLSitemap brokenWeb rootURL = Inr \<lparr>URLs = entries [''http://example.com/a'', '':bad'']\<rparr>
   \<and> Parse brokenWeb ''http://example.com/a'' = Inr (httpURL ''example.com'' ''/a'')
   \<and> Parse brokenWeb '':bad'' = Inl (Failure ''missing protocol scheme'')
   \<and> getURLsFromSitemap brokenWeb rootURL = Inl (Failure ''missing protocol scheme'')
   \<and> getSitemapIndex brokenWeb rootURL
       = Inr \<lparr>Sitemaps = entries [''http://example.com/child.xml'', '':bad'']\<rparr>
   \<and> getURLsFromSitemap brokenWeb childURL
       = Inr [httpURL ''example.com'' ''/a'', httpURL ''example.com'' ''/b'']
   \<and> getURLsFromSitemapIndex brokenWeb rootURL = Inl (Failure ''missing protocol scheme'')
   \<and> Parse go_env ''http://exa mple.com/'' = Inl (Failure ''invalid character in host name'')
   \<and> eachLink go_env exampleBase ''http://example.com'' [httpURL ''example.com'' ''/x'']
        ''http://exa mple.com/'' = Return [httpURL ''example.com'' ''/x'']"
proof -
  have a1: "getXMLSitemap brokenWeb rootURL
      = Inr \<lparr>URLs = entries [''http://example.com/a'', '':bad'']\<rparr>"
    by (simp add: brokenWeb_def siteWeb_simps)
  have a2: "\<lparr>Location = '':bad''\<rparr>
      \<in> set (URLs \<lparr>URLs = entries [''http://example.com/a'', '':bad'']\<rparr>)"
    by (simp add: entries_def)
  have a3: "Parse brokenWeb (Location \<lparr>Location = '':bad''\<rparr>)
      = Inl (Failure ''missing protocol scheme'')"
    by (simp add: brokenWeb_def siteWeb_simps parse_examples)
  have a4: "Parse brokenWeb ''http://example.com/a'' = Inr (httpURL ''example.com'' ''/a'')"
    by (simp add: brokenWeb_def siteWeb_simps parse_examples)
  have a5: "getURLsFromSitemap brokenWeb rootURL = Inl (Failure ''missing protocol scheme'')"
    by (simp add: getURLsFromSitemap_def brokenWeb_def siteWeb_simps entries_def parse_examples)
  have b1: "getSitemapIndex brokenWeb rootURL
       = Inr \<lparr>Sitemaps = entries [''http://example.com/child.xml'', '':bad'']\<rparr>"
    by (simp add: brokenWeb_def siteWeb_simps)
  have b2: "\<lparr>Location = '':bad''\<rparr>
      \<in> set (Sitemaps \<lparr>Sitemaps = entries [''http://example.com/child.xml'', '':bad'']\<rparr>)"
    by (simp add: entries_def)
  have b3: "getURLsFromSitemap brokenWeb childURL
       = Inr [httpURL ''example.com'' ''/a'', httpURL ''example.com'' ''/b'']"
    by (simp add: brokenWeb_def siteWeb_child)
  have b4: "getURLsFromSitemapIndex brokenWeb rootURL = Inl (Failure ''missing protocol scheme'')"
    using b3 by (simp add: getURLsFromSitemapIndex_def brokenWeb_def siteWeb_simps entries_def
        parse_examples)
  have c1: "cutHash (resolveHref exampleBase ''http://example.com'' ''http://exa mple.com/'')
      = Return ''http://exa mple.com/''"
    by (simp add: cutHash_def resolveHref_def Contains_def HasPrefix_def)
  have c2: "Parse go_env ''http://exa mple.com/''
      = Inl (Failure ''invalid character in host name'')"
    by (simp add: go_env_def go_url_defs)
  from sitemap_entry_failure_is_total[of brokenWeb rootURL _ "\<lparr>Location = '':bad''\<rparr>"
      "Failure ''missing protocol scheme''" _ "\<lparr>Location = '':bad''\<rparr>"
      exampleBase "''http://example.com''" "''http://exa mple.com/''" "''http://exa mple.com/''"
      "[httpURL ''example.com'' ''/x'']"]
    sitemap_entry_failure_is_total[of go_env rootURL _ _
      "Failure ''invalid character in host name''" _ _
      exampleBase "''http://example.com''" "''http://exa mple.com/''" "''http://exa mple.com/''"
      "[httpURL ''example.com'' ''/x'']"]
    a1 a2 a3 a4 a5 b1 b2 b3 b4 c1 c2
  show ?thesis by simp
qed

text \<open>
  C2. \<open>getURLs\<close> returns an error exactly when both probes fail, whatever the reason of
  each failure (a format mismatch, an entry that does not parse, a failed read); the
  error is then the one built at line 189, and no addresses are returned. When one probe
  succeeds and the other fails for any reason, it returns the addresses of the successful
  probe and no error. The two classifiers of line 188 are the ones modelled from the spec
  above.
\<close>

theorem getURLs_error_iff:
  "((\<exists>err. getURLs env u = Inl err) \<longleftrightarrow>
      (\<exists>e1. getURLsFromSitemapIndex env u = Inl e1) \<and> (\<exists>e2. getURLsFromSitemap env u = Inl e2))
   \<and> (getURLsFromSitemapIndex env u = Inl e1 \<and> getURLsFromSitemap env u = Inl e2 \<longrightarrow>
        getURLs env u = Inl (NeitherSitemap (String env u)))
   \<and> (getURLsFromSitemapIndex env u = Inr a \<and> getURLsFromSitemap env u = Inl e2 \<longrightarrow>
        getURLs env u = Inr a)
   \<and> (getURLsFromSitemapIndex env u = Inl e1 \<and> getURLsFromSitemap env u = Inr b \<longrightarrow>
        getURLs env u = Inr b)"
  by (cases "getURLsFromSitemapIndex env u"; cases "getURLsFromSitemap env u")
     (auto simp: getURLs_def errorOf_def isInvalidSitemapIndexContent_def
        isInvalidXMLSitemapContent_def)

text \<open>
  Both probes fail on an entry that does not parse; the index probe alone succeeds; the
  flat probe alone succeeds.
\<close>

theorem getURLs_error_iff_witness:
  "getURLsFromSitemapIndex brokenWeb rootURL = Inl (Failure ''missing protocol scheme'')
   \<and> getURLsFromSitemap brokenWeb rootURL = Inl (Failure ''missing protocol scheme'')
   \<and> getURLs brokenWeb rootURL = Inl (NeitherSitemap ''http://example.com/sitemap.xml'')
   \<and> getURLs (siteWeb (Inr childIndex) (Inl (Failure ''timeout''))) rootURL
     = Inr [httpURL ''example.com'' ''/a'', httpURL ''example.com'' ''/b'']
   \<and> getURLs (siteWeb (Inl (Failure ''timeout'')) (Inr \<lparr>URLs = entries [''http://example.com/c'']\<rparr>))
        rootURL
     = Inr [httpURL ''example.com'' ''/c'']"
proof -
  let ?index = "siteWeb (Inr childIndex) (Inl (Failure ''timeout''))"
  let ?flat = "siteWeb (Inl (Failure ''timeout'')) (Inr \<lparr>URLs = entries [''http://example.com/c'']\<rparr>)"
  have s: "String brokenWeb rootURL = ''http://example.com/sitemap.xml''"
    by (simp add: brokenWeb_def siteWeb_simps rootURL_def go_url_defs)
  have b1: "getURLsFromSitemapIndex brokenWeb rootURL = Inl (Failure ''missing protocol scheme'')"
    by (simp add: getURLsFromSitemapIndex_def brokenWeb_def siteWeb_simps entries_def
        parse_examples siteWeb_child)
  have b2: "getURLsFromSitemap brokenWeb rootURL = Inl (Failure ''missing protocol scheme'')"
    by (simp add: getURLsFromSitemap_def brokenWeb_def siteWeb_simps entries_def parse_examples)
  have index: "getURLsFromSitemapIndex ?index rootURL
      = Inr [httpURL ''example.com'' ''/a'', httpURL ''example.com'' ''/b'']"
    "getURLsFromSitemap ?index rootURL = Inl (Failure ''timeout'')"
    by (simp_all add: getURLsFromSitemapIndex_def getURLsFromSitemap_def siteWeb_simps
        childIndex_def entries_def parse_examples siteWeb_child)
  have flat: "getURLsFromSitemapIndex ?flat rootURL = Inl (Failure ''timeout'')"
    "getURLsFromSitemap ?flat rootURL = Inr [httpURL ''example.com'' ''/c'']"
    by (simp_all add: getURLsFromSitemapIndex_def getURLsFromSitemap_def siteWeb_simps
        entries_def parse_examples)
  have 1: "getURLs brokenWeb rootURL = Inl (NeitherSitemap ''http://example.com/sitemap.xml'')"
    using getURLs_error_iff[of brokenWeb rootURL "Failure ''missing protocol scheme''"
        "Failure ''missing protocol scheme''"] b1 b2 s by simp
  have 2: "getURLs ?index rootURL = Inr [httpURL ''example.com'' ''/a'', httpURL ''example.com'' ''/b'']"
    using getURLs_error_iff[of ?index rootURL _ "Failure ''timeout''"] index by simp
  have 3: "getURLs ?flat rootURL = Inr [httpURL ''example.com'' ''/c'']"
    using getURLs_error_iff[of ?flat rootURL "Failure ''timeout''"] flat by simp
  from b1 b2 1 2 3 show ?thesis by simp
qed

text \<open>
  C5, as stated, fails. The fetch returns an HTML response and no record reaches the
  statistics: in the first run the HTML parser reports an error and the closure returns at
  line 93; in the second the page has the base element \<open>#top\<close> and a relative link, and
  link extraction panics.
\<close>

theorem Execute_statistics_counterexample:
  "readURL (withParserError (withResponse go_env htmlResponse)) (httpURL ''example.com'' ''/a'')
     = Inr htmlResponse
   \<and> Execute (withParserError (withResponse go_env htmlResponse)) 10
        (request rootURL (httpURL ''example.com'' ''/a'')) 1 4
     = Finished \<lparr>sent = [], recorded = []\<rparr>
   \<and> readURL (withDocument (withResponse go_env htmlResponse) hashBaseDoc)
        (httpURL ''example.com'' ''/a'')
     = Inr htmlResponse
   \<and> Execute (withDocument (withResponse go_env htmlResponse) hashBaseDoc) 10
        (request rootURL (httpURL ''example.com'' ''/a'')) 1 4
     = Panicked"
  by (simp add: Execute_def withParserError_def withResponse_def htmlResponse_def request_def
      link_defs go_url_defs hashBaseDoc_def)

text \<open>
  C5, amended. One run of \<open>Execute\<close> passes at most one record to the statistics. It passes
  exactly one, built from the response, when the fetch returns a response that is not HTML,
  and when the fetch returns an HTML response, link extraction returns its links and every
  send of a link to the queue completes (the links are then all sent, with the fetched
  page as parent). It passes none when the fetch fails, none when link extraction on an
  HTML response returns an error, and none when a send of a link never completes: the
  record is built after the sends.
\<close>

theorem Execute_statistics:
  "(readURL env (TargetURL t) = Inl err \<longrightarrow>
      Execute env room t w n = Finished \<lparr>sent = [], recorded = []\<rparr>)
   \<and> (readURL env (TargetURL t) = Inr response \<and> \<not> IsHTML response \<longrightarrow>
      Execute env room t w n
        = Finished \<lparr>sent = [], recorded = [workResult t w n response]\<rparr>)
   \<and> (readURL env (TargetURL t) = Inr response \<and> IsHTML response
        \<and> getDependentRequests env (TargetURL t) (Body response) = Return (Inr links)
        \<and> length links \<le> room \<longrightarrow>
      Execute env room t w n
        = Finished \<lparr>sent = map (\<lambda>link. \<lparr>ParentURL = TargetURL t, TargetURL = link\<rparr>) links,
                     recorded = [workResult t w n response]\<rparr>)
   \<and> (readURL env (TargetURL t) = Inr response \<and> IsHTML response
        \<and> getDependentRequests env (TargetURL t) (Body response) = Return (Inr links)
        \<and> room < length links \<longrightarrow>
      Execute env room t w n
        = Stalled (take room (map (\<lambda>link. \<lparr>ParentURL = TargetURL t, TargetURL = link\<rparr>) links)))
   \<and> (readURL env (TargetURL t) = Inr response \<and> IsHTML response
        \<and> getDependentRequests env (TargetURL t) (Body response) = Return (Inl err) \<longrightarrow>
      Execute env room t w n = Finished \<lparr>sent = [], recorded = []\<rparr>)
   \<and> length (recordsOf (Execute env room t w n)) \<le> 1"
proof (intro conjI impI)
  show "length (recordsOf (Execute env room t w n)) \<le> 1"
    by (auto simp: Execute_def recordsOf_def
        split: sum.splits outcome.splits if_splits option.splits)
qed (auto simp: Execute_def)

text \<open>
  The cases: the network is down; a response that is not HTML; an HTML page with one link
  in scope, with room for the send and without; an HTML page the parser rejects.
\<close>

theorem Execute_statistics_witness:
  "Execute go_env 0 (request rootURL (httpURL ''example.com'' ''/a'')) 1 4
     = Finished \<lparr>sent = [], recorded = []\<rparr>
   \<and> Execute (withResponse go_env (htmlResponse\<lparr>IsHTML := False\<rparr>)) 0
        (request rootURL (httpURL ''example.com'' ''/a'')) 1 4
     = Finished \<lparr>sent = [],
         recorded = [workResult (request rootURL (httpURL ''example.com'' ''/a'')) 1 4
                       (htmlResponse\<lparr>IsHTML := False\<rparr>)]\<rparr>
   \<and> Execute (withDocument (withResponse go_env htmlResponse) subdomainDoc) 1
        (request rootURL (httpURL ''example.com'' ''/a'')) 1 4
     = Finished \<lparr>sent = [request (httpURL ''example.com'' ''/a'') (httpURL ''example.com'' ''/p'')],
         recorded = [workResult (request rootURL (httpURL ''example.com'' ''/a'')) 1 4
                       htmlResponse]\<rparr>
   \<and> Execute (withDocument (withResponse go_env htmlResponse) subdomainDoc) 0
        (request rootURL (httpURL ''example.com'' ''/a'')) 1 4
     = Stalled []
   \<and> recordsOf (Execute (withDocument (withResponse go_env htmlResponse) subdomainDoc) 0
        (request rootURL (httpURL ''example.com'' ''/a'')) 1 4) = []
   \<and> Execute (withParserError (withResponse go_env htmlResponse)) 1
        (request rootURL (httpURL ''example.com'' ''/a'')) 1 4
     = Finished \<lparr>sent = [], recorded = []\<rparr>"
proof -
  let ?t = "request rootURL (httpURL ''example.com'' ''/a'')"
  let ?plain = "withResponse go_env (htmlResponse\<lparr>IsHTML := False\<rparr>)"
  let ?page = "withDocument (withResponse go_env htmlResponse) subdomainDoc"
  let ?bad = "withParserError (withResponse go_env htmlResponse)"
  have a: "readURL go_env (TargetURL ?t) = Inl (Failure ''no such host'')"
    by (simp add: go_env_def)
  have b: "readURL ?plain (TargetURL ?t) = Inr (htmlResponse\<lparr>IsHTML := False\<rparr>)
      \<and> \<not> IsHTML (htmlResponse\<lparr>IsHTML := False\<rparr>)"
    by (simp add: withResponse_def)
  have c: "readURL ?page (TargetURL ?t) = Inr htmlResponse \<and> IsHTML htmlResponse
      \<and> getDependentRequests ?page (TargetURL ?t) (Body htmlResponse)
          = Return (Inr [httpURL ''example.com'' ''/p''])"
    by (simp add: withResponse_def htmlResponse_def request_def link_defs go_url_defs
        subdomainDoc_def)
  have d: "readURL ?bad (TargetURL ?t) = Inr htmlResponse \<and> IsHTML htmlResponse
      \<and> getDependentRequests ?bad (TargetURL ?t) (Body htmlResponse)
          = Return (Inl (Failure ''read error''))"
    by (simp add: withResponse_def withParserError_def htmlResponse_def
        getDependentRequests_def)
  from Execute_statistics[of go_env ?t "Failure ''no such host''" 0 1 4] a
  have 1: "Execute go_env 0 ?t 1 4 = Finished \<lparr>sent = [], recorded = []\<rparr>" by simp
  from Execute_statistics[of ?plain ?t _ 0 1 4 "htmlResponse\<lparr>IsHTML := False\<rparr>"] b
  have 2: "Execute ?plain 0 ?t 1 4
      = Finished \<lparr>sent = [], recorded = [workResult ?t 1 4 (htmlResponse\<lparr>IsHTML := False\<rparr>)]\<rparr>"
    by simp
  from Execute_statistics[of ?page ?t _ 1 1 4 htmlResponse "[httpURL ''example.com'' ''/p'']"] c
  have 3: "Execute ?page 1 ?t 1 4
      = Finished \<lparr>sent = [request (httpURL ''example.com'' ''/a'') (httpURL ''example.com'' ''/p'')],
          recorded = [workResult ?t 1 4 htmlResponse]\<rparr>"
    by (simp add: request_def)
  from Execute_statistics[of ?page ?t _ 0 1 4 htmlResponse "[httpURL ''example.com'' ''/p'']"] c
  have 4: "Execute ?page 0 ?t 1 4 = Stalled []"
    by simp
  have 5: "recordsOf (Execute ?page 0 ?t 1 4) = []"
    by (simp add: 4 recordsOf_def)
  from Execute_statistics[of ?bad ?t "Failure ''read error''" 1 1 4 htmlResponse] d
  have 6: "Execute ?bad 1 ?t 1 4 = Finished \<lparr>sent = [], recorded = []\<rparr>" by simp
  from 1 2 3 4 5 6 show ?thesis by simp
qed

text \<open>
  C8. The claim takes two targets that differ only in their fragment for one address. The
  crawl does not: a sitemap lists \<open>http://example.com/a\<close> and \<open>http://example.com/a#top\<close>,
  the flat probe keeps the fragment of the second, the seen-set is keyed on the two string
  forms \<open>http://example.com/a\<close> and \<open>http://example.com/a#top\<close>, and a work request is
  submitted for each. Link extraction cuts fragments off before parsing (lines 152-156);
  the sitemap path and the loop of \<open>crawl\<close> do not.
\<close>

theorem crawl_fragment_duplicates:
  "getURLs fragmentWeb rootURL
     = Inr [httpURL ''example.com'' ''/a'', (httpURL ''example.com'' ''/a'')\<lparr>Fragment := ''top''\<rparr>]
   \<and> String fragmentWeb (httpURL ''example.com'' ''/a'') = ''http://example.com/a''
   \<and> String fragmentWeb ((httpURL ''example.com'' ''/a'')\<lparr>Fragment := ''top''\<rparr>)
       = ''http://example.com/a#top''
   \<and> crawl fragmentWeb emptyState rootURL []
     = (None,
        \<lparr>visitedURLs =
           [''http://example.com/a'' \<mapsto> httpURL ''example.com'' ''/a'',
            ''http://example.com/a#top'' \<mapsto> (httpURL ''example.com'' ''/a'')\<lparr>Fragment := ''top''\<rparr>],
         WorkQueue =
           [createWorkRequest (request rootURL (httpURL ''example.com'' ''/a'')),
            createWorkRequest
              (request rootURL ((httpURL ''example.com'' ''/a'')\<lparr>Fragment := ''top''\<rparr>))]\<rparr>)"
proof -
  have p: "go_Parse ''http://example.com/a#top''
      = Inr ((httpURL ''example.com'' ''/a'')\<lparr>Fragment := ''top''\<rparr>)"
    by (simp add: go_url_defs)
  have s: "go_String (httpURL ''example.com'' ''/a'') = ''http://example.com/a''"
    "go_String ((httpURL ''example.com'' ''/a'')\<lparr>Fragment := ''top''\<rparr>) = ''http://example.com/a#top''"
    by (simp_all add: go_url_defs)
  have i: "getURLsFromSitemapIndex fragmentWeb rootURL = Inl InvalidSitemapIndexContent"
    by (simp add: getURLsFromSitemapIndex_def fragmentWeb_def siteWeb_simps)
  have f: "getURLsFromSitemap fragmentWeb rootURL
      = Inr [httpURL ''example.com'' ''/a'', (httpURL ''example.com'' ''/a'')\<lparr>Fragment := ''top''\<rparr>]"
    by (simp add: getURLsFromSitemap_def fragmentWeb_def siteWeb_simps entries_def parse_examples p)
  have g: "getURLs fragmentWeb rootURL
      = Inr [httpURL ''example.com'' ''/a'', (httpURL ''example.com'' ''/a'')\<lparr>Fragment := ''top''\<rparr>]"
    by (simp add: getURLs_def i f errorOf_def isInvalidSitemapIndexContent_def
        isInvalidXMLSitemapContent_def)
  have S: "String fragmentWeb = go_String"
    by (simp add: fragmentWeb_def siteWeb_simps)
  have c: "crawl fragmentWeb emptyState rootURL []
     = (None,
        \<lparr>visitedURLs =
           [''http://example.com/a'' \<mapsto> httpURL ''example.com'' ''/a'',
            ''http://example.com/a#top'' \<mapsto> (httpURL ''example.com'' ''/a'')\<lparr>Fragment := ''top''\<rparr>],
         WorkQueue =
           [createWorkRequest (request rootURL (httpURL ''example.com'' ''/a'')),
            createWorkRequest
              (request rootURL ((httpURL ''example.com'' ''/a'')\<lparr>Fragment := ''top''\<rparr>))]\<rparr>)"
    by (simp add: crawl_def g S s crawl_step_def emptyState_def request_def)
  from g S s c show ?thesis by simp
qed

end
